theory Spec2Isabelle
  imports Main "HOL-Library.Word" "HOL-Library.Sublist"
begin

unbundle bit_operations_syntax

section \<open>FashionChat: the chat hook and the message bubble\<close>

text \<open>
  The development embeds the client side of the chat: the hook \<^verbatim>\<open>useChat\<close>
  (its state, \<^verbatim>\<open>sendMessage\<close>, \<^verbatim>\<open>loadChatHistory\<close>, \<^verbatim>\<open>clearChat\<close>), the
  request that \<^verbatim>\<open>ApiService.sendMessage\<close> posts, and the two attachment sections of
  the component \<^verbatim>\<open>ChatMessage\<close>.
\<close>

subsection \<open>JavaScript strings\<close>

text \<open>
  A JavaScript string is a sequence of UTF-16 code units. \<open>js\<close> writes an ASCII
  literal of the source as such a sequence.
\<close>

type_synonym js_string = "16 word list"

definition js :: "string \<Rightarrow> js_string" where
  "js s = map (\<lambda>c. of_nat (of_char c)) s"

text \<open>
  \<^verbatim>\<open>String.prototype.trim\<close> strips WhiteSpace and LineTerminator code points from both
  ends: TAB, LF, VT, FF, CR, SP, NBSP, U+1680, U+2000 to U+200A, LS, PS, U+202F, U+205F,
  U+3000 and U+FEFF. All of them are single code units.
\<close>

definition isWhiteSpace :: "16 word \<Rightarrow> bool" where
  "isWhiteSpace u =
     (u \<in> set [0x0009, 0x000A, 0x000B, 0x000C, 0x000D, 0x0020, 0x00A0, 0x1680,
                0x2000, 0x2001, 0x2002, 0x2003, 0x2004, 0x2005, 0x2006, 0x2007,
                0x2008, 0x2009, 0x200A, 0x2028, 0x2029, 0x202F, 0x205F, 0x3000,
                0xFEFF])"

definition trim :: "js_string \<Rightarrow> js_string" where
  "trim s = rev (dropWhile isWhiteSpace (rev (dropWhile isWhiteSpace s)))"

text \<open>A string is truthy when it is not empty; \<^verbatim>\<open>null\<close> and \<^verbatim>\<open>undefined\<close> are falsy.\<close>

definition truthy :: "js_string option \<Rightarrow> bool" where
  "truthy v = (case v of None \<Rightarrow> False | Some s \<Rightarrow> s \<noteq> [])"

text \<open>
  What the hook reads from a caught error is typed \<^verbatim>\<open>any\<close>: it may hold any value
  that a parsed response body can hold, or \<^verbatim>\<open>undefined\<close> for a missing property. A
  number is given by the bits of its IEEE 754 double.
\<close>

datatype js_value =
    JUndefined
  | JNull
  | JBoolean bool
  | JNumber "64 word"
  | JString js_string
  | JArray "js_value list"
  | JObject "(js_string \<times> js_value) list"

definition number_is_zero :: "64 word \<Rightarrow> bool" where
  "number_is_zero w = (w AND 0x7FFFFFFFFFFFFFFF = 0)"

definition number_is_nan :: "64 word \<Rightarrow> bool" where
  "number_is_nan w =
     (w AND 0x7FF0000000000000 = 0x7FF0000000000000 \<and> w AND 0x000FFFFFFFFFFFFF \<noteq> 0)"

text \<open>
  \<^verbatim>\<open>ToBoolean\<close>, which decides \<^verbatim>\<open>a || b\<close>: \<^verbatim>\<open>undefined\<close>, \<^verbatim>\<open>null\<close>, \<^verbatim>\<open>false\<close>,
  zero, NaN and the empty string are falsy; every array and every object is truthy.
\<close>

fun ToBoolean :: "js_value \<Rightarrow> bool" where
  "ToBoolean JUndefined = False"
| "ToBoolean JNull = False"
| "ToBoolean (JBoolean b) = b"
| "ToBoolean (JNumber w) = (\<not> number_is_zero w \<and> \<not> number_is_nan w)"
| "ToBoolean (JString s) = (s \<noteq> [])"
| "ToBoolean (JArray xs) = True"
| "ToBoolean (JObject props) = True"

text \<open>
  \<^verbatim>\<open>data?.detail\<close>: the property of an object when it has one; \<^verbatim>\<open>undefined\<close> on
  \<^verbatim>\<open>null\<close> and \<^verbatim>\<open>undefined\<close> (the optional chain) and on a primitive or an array,
  which have no property of that name.
\<close>

fun detail_of :: "js_value \<Rightarrow> js_value" where
  "detail_of (JObject props) =
     (case map_of props (js ''detail'') of None \<Rightarrow> JUndefined | Some v \<Rightarrow> v)"
| "detail_of v = JUndefined"

text \<open>
  \<^verbatim>\<open>Array.prototype.slice(start, end)\<close>: a negative index counts from the end, and both
  indices are clamped to the array.
\<close>

definition slice_arr :: "int \<Rightarrow> int \<Rightarrow> 'a list \<Rightarrow> 'a list" where
  "slice_arr start end xs =
     (let len = int (length xs);
          k = (if start < 0 then max (len + start) 0 else min start len);
          final = (if end < 0 then max (len + end) 0 else min end len)
      in take (nat (final - k)) (drop (nat k) xs))"

subsection \<open>Data model\<close>

text \<open>
  \<^verbatim>\<open>ChatMessage\<close>: \<^verbatim>\<open>type\<close> is \<^verbatim>\<open>'user' | 'assistant'\<close>; \<^verbatim>\<open>intent\<close>, \<^verbatim>\<open>products\<close> and
  \<^verbatim>\<open>orders\<close> are optional fields. The hook declares the attachments as \<^verbatim>\<open>any[]\<close>, so
  their element types are parameters. \<^verbatim>\<open>content\<close> is declared a string, but the error
  handler stores there a value read from an \<^verbatim>\<open>any\<close>, so the field holds a value.
\<close>

datatype message_type = User | Assistant

record ('p, 'o) chat_message =
  mtype :: message_type
  content :: js_value
  timestamp :: js_string
  intent :: "js_string option"
  products :: "'p list option"
  orders :: "'o list option"

text \<open>\<^verbatim>\<open>ChatResponse\<close>, the body of a successful \<^verbatim>\<open>POST /chat/message\<close>.\<close>

record ('p, 'o) chat_response =
  response :: js_string
  r_intent :: js_string
  session_id :: js_string
  r_products :: "'p list option"
  r_orders :: "'o list option"

text \<open>
  A rejected call carries the error object that axios throws, read through
  \<^verbatim>\<open>error.response?.data?.detail\<close>: there is no \<^verbatim>\<open>response\<close> when no reply arrived,
  and \<^verbatim>\<open>data\<close> is whatever the body of the reply holds.
\<close>

datatype error_response = ErrorResponse (err_data: js_value)
datatype api_error = ApiError (err_response: "error_response option")

type_synonym ('p, 'o) api_result = "api_error + ('p, 'o) chat_response"

text \<open>The body \<^verbatim>\<open>{ message, session_id }\<close> that \<^verbatim>\<open>ApiService.sendMessage\<close> posts.\<close>

record api_request =
  req_message :: js_string
  req_session_id :: "js_string option"

definition ApiService_sendMessage :: "js_string \<Rightarrow> js_string option \<Rightarrow> api_request" where
  "ApiService_sendMessage message sid = \<lparr>req_message = message, req_session_id = sid\<rparr>"

text \<open>The three \<^verbatim>\<open>useState\<close> cells of the hook, with their initial values.\<close>

record ('p, 'o) chat_state =
  messages :: "('p, 'o) chat_message list"
  isLoading :: bool
  sessionId :: "js_string option"

definition initial :: "('p, 'o) chat_state" where
  "initial = \<lparr>messages = [], isLoading = False, sessionId = None\<rparr>"

text \<open>
  \<^verbatim>\<open>sendMessage\<close> and \<^verbatim>\<open>loadChatHistory\<close> are closures over \<^verbatim>\<open>isLoading\<close> and
  \<^verbatim>\<open>sessionId\<close> (their \<^verbatim>\<open>useCallback\<close> dependencies): they read the values of the
  render that created them, while every \<^verbatim>\<open>setMessages(prev => ...)\<close> acts on the
  state current at the time of the update.
\<close>

record closure =
  c_isLoading :: bool
  c_sessionId :: "js_string option"

definition useChat :: "('p, 'o) chat_state \<Rightarrow> closure" where
  "useChat st = \<lparr>c_isLoading = isLoading st, c_sessionId = sessionId st\<rparr>"

subsection \<open>sendMessage\<close>

definition userMessage :: "js_string \<Rightarrow> js_string \<Rightarrow> ('p, 'o) chat_message" where
  "userMessage message now =
     \<lparr>mtype = User, content = JString (trim message), timestamp = now,
      intent = None, products = None, orders = None\<rparr>"

definition assistantMessage :: "('p, 'o) chat_response \<Rightarrow> js_string \<Rightarrow> ('p, 'o) chat_message" where
  "assistantMessage r now =
     \<lparr>mtype = Assistant, content = JString (response r), timestamp = now,
      intent = Some (r_intent r), products = r_products r, orders = r_orders r\<rparr>"

definition apology :: js_string where
  "apology = js ''I apologize, but I encountered an error processing your message. Please try again.''"

definition error_detail :: "api_error \<Rightarrow> js_value" where
  "error_detail e =
     (case err_response e of None \<Rightarrow> JUndefined | Some r \<Rightarrow> detail_of (err_data r))"

definition errorMessage :: "api_error \<Rightarrow> js_string \<Rightarrow> ('p, 'o) chat_message" where
  "errorMessage e now =
     \<lparr>mtype = Assistant,
      content = (if ToBoolean (error_detail e) then error_detail e else JString apology),
      timestamp = now,
      intent = Some (js ''error''), products = None, orders = None\<rparr>"

text \<open>
  The part of \<^verbatim>\<open>sendMessage\<close> before the \<^verbatim>\<open>await\<close>: the guard, the user message, the
  loading flag, and the request handed to the API (\<open>None\<close> when the guard returns).
  \<open>now\<close> is the clock reading of \<^verbatim>\<open>new Date().toISOString()\<close>.
\<close>

definition sendMessage_start ::
  "closure \<Rightarrow> js_string \<Rightarrow> js_string \<Rightarrow> ('p, 'o) chat_state
     \<Rightarrow> ('p, 'o) chat_state \<times> api_request option" where
  "sendMessage_start c message now st =
     (if trim message = [] \<or> c_isLoading c then (st, None)
      else (st\<lparr>messages := messages st @ [userMessage message now], isLoading := True\<rparr>,
            Some (ApiService_sendMessage (trim message) (c_sessionId c))))"

text \<open>
  The part after the \<^verbatim>\<open>await\<close>: the \<^verbatim>\<open>try\<close> body on a resolved call, the \<^verbatim>\<open>catch\<close>
  handler on a rejected one, then \<^verbatim>\<open>finally\<close>.
\<close>

definition sendMessage_finish ::
  "closure \<Rightarrow> ('p, 'o) api_result \<Rightarrow> js_string \<Rightarrow> ('p, 'o) chat_state \<Rightarrow> ('p, 'o) chat_state" where
  "sendMessage_finish c res now st =
     (case res of
        Inr r \<Rightarrow>
          (let st1 = (if \<not> truthy (c_sessionId c) \<and> truthy (Some (session_id r))
                      then st\<lparr>sessionId := Some (session_id r)\<rparr> else st)
           in st1\<lparr>messages := messages st1 @ [assistantMessage r now]\<rparr>)
      | Inl e \<Rightarrow> st\<lparr>messages := messages st @ [errorMessage e now]\<rparr>)
     \<lparr>isLoading := False\<rparr>"

text \<open>
  One invocation run to completion with no other update of the hook in between. \<open>api\<close>
  is the server: the outcome of the call for the request it receives. The second
  component lists the API calls issued.
\<close>

definition sendMessage ::
  "(api_request \<Rightarrow> ('p, 'o) api_result) \<Rightarrow> js_string \<Rightarrow> js_string \<Rightarrow> js_string
     \<Rightarrow> ('p, 'o) chat_state \<Rightarrow> ('p, 'o) chat_state \<times> api_request list" where
  "sendMessage api now1 now2 message st =
     (case sendMessage_start (useChat st) message now1 st of
        (st1, None) \<Rightarrow> (st1, [])
      | (st1, Some req) \<Rightarrow> (sendMessage_finish (useChat st) (api req) now2 st1, [req]))"

subsection \<open>clearChat and loadChatHistory\<close>

definition clearChat :: "('p, 'o) chat_state \<Rightarrow> ('p, 'o) chat_state" where
  "clearChat st = st\<lparr>messages := [], sessionId := None, isLoading := False\<rparr>"

text \<open>
  \<^verbatim>\<open>ApiService.getChatHistory\<close> returns \<^verbatim>\<open>any[]\<close>. A stored entry is modelled with the
  fields of a message, attachments included, so that what the hook drops is visible.
\<close>

definition formatMessage :: "('p, 'o) chat_message \<Rightarrow> ('p, 'o) chat_message" where
  "formatMessage msg =
     \<lparr>mtype = mtype msg, content = content msg, timestamp = timestamp msg,
      intent = intent msg, products = None, orders = None\<rparr>"

definition loadChatHistory ::
  "(js_string \<Rightarrow> api_error + ('p, 'o) chat_message list) \<Rightarrow> ('p, 'o) chat_state
     \<Rightarrow> ('p, 'o) chat_state" where
  "loadChatHistory getChatHistory st =
     (case c_sessionId (useChat st) of
        None \<Rightarrow> st
      | Some sid \<Rightarrow>
          if \<not> truthy (Some sid) then st
          else (case getChatHistory sid of
                  Inr history \<Rightarrow> st\<lparr>messages := map formatMessage history\<rparr>
                | Inl e \<Rightarrow> st))"

subsection \<open>The attachment sections of a message bubble\<close>

text \<open>
  \<^verbatim>\<open>message.products && message.products.length > 0 && ...slice(0, 3).map(...)\<close>: the
  section is rendered only for a present, non-empty list, with one card per element of
  the slice. \<open>None\<close> stands for a section that is not rendered.
\<close>

definition productsSection :: "('p, 'o) chat_message \<Rightarrow> 'p list option" where
  "productsSection message =
     (case products message of
        None \<Rightarrow> None
      | Some ps \<Rightarrow> if length ps > 0 then Some (slice_arr 0 3 ps) else None)"

definition ordersSection :: "('p, 'o) chat_message \<Rightarrow> 'o list option" where
  "ordersSection message =
     (case orders message of
        None \<Rightarrow> None
      | Some os \<Rightarrow> if length os > 0 then Some (slice_arr 0 2 os) else None)"

definition displayed :: "'a list option \<Rightarrow> 'a list" where
  "displayed section = (case section of None \<Rightarrow> [] | Some cards \<Rightarrow> cards)"

subsection \<open>Intent labels\<close>

text \<open>
  Modelled from the spec: the closed enumeration of intent labels. The client types
  \<^verbatim>\<open>intent\<close> as \<^verbatim>\<open>string\<close> and only writes the literal \<^verbatim>\<open>'error'\<close> itself; the
  other three labels are produced by the server's classifier.
\<close>

definition intents :: "js_string list" where
  "intents = [js ''product_search'', js ''order_inquiry'', js ''general'', js ''error'']"

definition valid_intent :: "js_string option \<Rightarrow> bool" where
  "valid_intent v = (case v of None \<Rightarrow> False | Some i \<Rightarrow> i \<in> set intents)"

definition nonempty :: "'a list option \<Rightarrow> bool" where
  "nonempty v = (case v of None \<Rightarrow> False | Some xs \<Rightarrow> xs \<noteq> [])"

subsection \<open>The hook over time\<close>

text \<open>
  Between the two parts of \<^verbatim>\<open>sendMessage\<close> the call is pending and the user interface
  stays live: the widget's clear button calls \<^verbatim>\<open>clearChat\<close> whatever the loading flag
  is. A system state is the hook's state together with the calls in flight, each with
  the closure that issued it. An event is one invocation of \<^verbatim>\<open>sendMessage\<close> up to its
  \<^verbatim>\<open>await\<close> (by the closure of the latest render: the widget invokes it from click
  and submit handlers, after which React renders again), the settling of the pending
  call at a position, a \<^verbatim>\<open>clearChat\<close>, or a \<^verbatim>\<open>loadChatHistory\<close> with its outcome.
  A settling call resumes with the closure that issued it.
\<close>

record ('p, 'o) system =
  hook :: "('p, 'o) chat_state"
  in_flight :: "(closure \<times> api_request) list"

datatype ('p, 'o) event =
    Send js_string js_string
  | Settle nat "('p, 'o) api_result" js_string
  | Clear
  | Load "api_error + ('p, 'o) chat_message list"

definition start :: "('p, 'o) system" where
  "start = \<lparr>hook = initial, in_flight = []\<rparr>"

fun step :: "('p, 'o) event \<Rightarrow> ('p, 'o) system \<Rightarrow> ('p, 'o) system" where
  "step (Send message now) s =
     (case sendMessage_start (useChat (hook s)) message now (hook s) of
        (h, None) \<Rightarrow> s\<lparr>hook := h\<rparr>
      | (h, Some req) \<Rightarrow> s\<lparr>hook := h, in_flight := in_flight s @ [(useChat (hook s), req)]\<rparr>)"
| "step (Settle i res now) s =
     (if i < length (in_flight s)
      then s\<lparr>hook := sendMessage_finish (fst (in_flight s ! i)) res now (hook s),
             in_flight := take i (in_flight s) @ drop (Suc i) (in_flight s)\<rparr>
      else s)"
| "step Clear s = s\<lparr>hook := clearChat (hook s)\<rparr>"
| "step (Load res) s = s\<lparr>hook := loadChatHistory (\<lambda>_. res) (hook s)\<rparr>"

fun run :: "('p, 'o) event list \<Rightarrow> ('p, 'o) system \<Rightarrow> ('p, 'o) system" where
  "run [] s = s"
| "run (e # es) s = run es (step e s)"

text \<open>A run in which \<^verbatim>\<open>clearChat\<close> is only invoked while no call is pending.\<close>

fun clear_only_idle :: "('p, 'o) event list \<Rightarrow> ('p, 'o) system \<Rightarrow> bool" where
  "clear_only_idle [] s = True"
| "clear_only_idle (e # es) s =
     ((e = Clear \<longrightarrow> in_flight s = []) \<and> clear_only_idle es (step e s))"

text \<open>
  The state of the loading flag agrees with the pending calls: at most one, and the
  flag is up exactly while it is pending.
\<close>

definition single_flight :: "('p, 'o) system \<Rightarrow> bool" where
  "single_flight s =
     (length (in_flight s) \<le> 1 \<and> isLoading (hook s) = (in_flight s \<noteq> []))"

text \<open>
  The session id seen by the pending calls is the one the hook holds: the closure of
  each call in flight captured it, and the request carries it.
\<close>

definition session_agrees :: "('p, 'o) system \<Rightarrow> bool" where
  "session_agrees s =
     (single_flight s \<and> sessionId (hook s) \<noteq> Some []
      \<and> (\<forall>p \<in> set (in_flight s).
            c_sessionId (fst p) = sessionId (hook s)
            \<and> req_session_id (snd p) = sessionId (hook s)))"

fun is_Send :: "('p, 'o) event \<Rightarrow> bool" where
  "is_Send (Send message now) = True"
| "is_Send e = False"

text \<open>A content that is a non-empty text.\<close>

fun nonempty_text :: "js_value \<Rightarrow> bool" where
  "nonempty_text (JString s) = (s \<noteq> [])"
| "nonempty_text v = False"

section \<open>Basic facts\<close>

lemma slice_arr_0: "0 \<le> n \<Longrightarrow> slice_arr 0 n xs = take (nat n) xs"
  by (auto simp: slice_arr_def Let_def min_def)

lemma apology_nonempty: "apology \<noteq> []"
  by (simp add: apology_def js_def)

lemma errorMessage_content:
  "content (errorMessage e now) =
     (if ToBoolean (error_detail e) then error_detail e else JString apology)"
  by (simp add: errorMessage_def)

lemma errorMessage_content_truthy: "ToBoolean (content (errorMessage e now))"
  by (simp add: errorMessage_content apology_nonempty)

lemma sendMessage_guarded:
  "trim message = [] \<or> isLoading st \<Longrightarrow> sendMessage api now1 now2 message st = (st, [])"
  by (auto simp: sendMessage_def sendMessage_start_def useChat_def)

lemma sendMessage_resolved:
  assumes "trim message \<noteq> []" and "\<not> isLoading st"
    and "api (ApiService_sendMessage (trim message) (sessionId st)) = Inr r"
  shows "sendMessage api now1 now2 message st =
    (st\<lparr>messages := messages st @ [userMessage message now1, assistantMessage r now2],
        isLoading := False,
        sessionId := (if \<not> truthy (sessionId st) \<and> session_id r \<noteq> []
                      then Some (session_id r) else sessionId st)\<rparr>,
     [ApiService_sendMessage (trim message) (sessionId st)])"
  using assms
  by (simp add: sendMessage_def sendMessage_start_def sendMessage_finish_def useChat_def
      truthy_def Let_def)

lemma sendMessage_rejected:
  assumes "trim message \<noteq> []" and "\<not> isLoading st"
    and "api (ApiService_sendMessage (trim message) (sessionId st)) = Inl e"
  shows "sendMessage api now1 now2 message st =
    (st\<lparr>messages := messages st @ [userMessage message now1, errorMessage e now2],
        isLoading := False\<rparr>,
     [ApiService_sendMessage (trim message) (sessionId st)])"
  using assms
  by (simp add: sendMessage_def sendMessage_start_def sendMessage_finish_def useChat_def)

lemma sendMessage_messages:
  assumes "trim message \<noteq> []" and "\<not> isLoading st"
  shows "messages (fst (sendMessage api now1 now2 message st)) =
    messages st @ [userMessage message now1,
      (case api (ApiService_sendMessage (trim message) (sessionId st)) of
         Inl e \<Rightarrow> errorMessage e now2
       | Inr r \<Rightarrow> assistantMessage r now2)]"
proof (cases "api (ApiService_sendMessage (trim message) (sessionId st))")
  case (Inl e)
  with assms show ?thesis by (simp add: sendMessage_rejected)
next
  case (Inr r)
  with assms show ?thesis by (simp add: sendMessage_resolved)
qed

subsection \<open>The loading flag and the calls in flight\<close>

lemma step_single_flight:
  assumes "single_flight s" and "e = Clear \<longrightarrow> in_flight s = []"
  shows "single_flight (step e s)"
proof (cases e)
  case (Send m now)
  with assms show ?thesis
    by (auto simp: single_flight_def sendMessage_start_def useChat_def)
next
  case (Settle i res now)
  with assms show ?thesis
    by (cases "in_flight s")
      (auto simp: single_flight_def sendMessage_finish_def Let_def split: sum.splits)
next
  case Clear
  with assms show ?thesis by (simp add: single_flight_def clearChat_def)
next
  case (Load res)
  with assms show ?thesis
    by (auto simp: single_flight_def loadChatHistory_def split: sum.splits option.splits)
qed

lemma run_single_flight:
  "single_flight s \<Longrightarrow> clear_only_idle evs s \<Longrightarrow> single_flight (run evs s)"
  by (induction evs arbitrary: s) (simp_all add: step_single_flight)

lemma single_flight_start: "single_flight start"
  by (simp add: single_flight_def start_def initial_def)

lemma step_Send_loading:
  "isLoading (hook s) \<Longrightarrow> step (Send message now) s = s"
  by (simp add: sendMessage_start_def useChat_def)

lemma step_sessionId_nonempty:
  "sessionId (hook s) \<noteq> Some [] \<Longrightarrow> sessionId (hook (step e s)) \<noteq> Some []"
proof (cases e)
  case (Send m now)
  assume "sessionId (hook s) \<noteq> Some []"
  with Send show ?thesis by (auto simp: sendMessage_start_def)
next
  case (Settle i res now)
  assume "sessionId (hook s) \<noteq> Some []"
  with Settle show ?thesis
    by (auto simp: sendMessage_finish_def truthy_def Let_def split: sum.splits)
next
  case Clear
  then show ?thesis by (simp add: clearChat_def)
next
  case (Load res)
  assume "sessionId (hook s) \<noteq> Some []"
  with Load show ?thesis
    by (auto simp: loadChatHistory_def split: sum.splits option.splits)
qed

lemma run_sessionId_nonempty:
  "sessionId (hook s) \<noteq> Some [] \<Longrightarrow> sessionId (hook (run evs s)) \<noteq> Some []"
  by (induction evs arbitrary: s) (simp_all add: step_sessionId_nonempty)

lemma step_idle:
  "(in_flight s = [] \<longrightarrow> \<not> isLoading (hook s)) \<Longrightarrow>
   in_flight (step e s) = [] \<longrightarrow> \<not> isLoading (hook (step e s))"
proof (cases e)
  case (Send m now)
  assume "in_flight s = [] \<longrightarrow> \<not> isLoading (hook s)"
  with Send show ?thesis by (auto simp: sendMessage_start_def useChat_def)
next
  case (Settle i res now)
  assume "in_flight s = [] \<longrightarrow> \<not> isLoading (hook s)"
  with Settle show ?thesis
    by (auto simp: sendMessage_finish_def Let_def split: sum.splits)
next
  case Clear
  then show ?thesis by (simp add: clearChat_def)
next
  case (Load res)
  assume "in_flight s = [] \<longrightarrow> \<not> isLoading (hook s)"
  with Load show ?thesis
    by (auto simp: loadChatHistory_def split: sum.splits option.splits)
qed

lemma run_idle:
  "(in_flight s = [] \<longrightarrow> \<not> isLoading (hook s)) \<Longrightarrow>
   in_flight (run evs s) = [] \<longrightarrow> \<not> isLoading (hook (run evs s))"
proof (induction evs arbitrary: s)
  case Nil
  then show ?case by simp
next
  case (Cons e evs)
  from Cons.IH [OF step_idle [OF Cons.prems]] show ?case by simp
qed

lemma run_sends_loading:
  "isLoading (hook s) \<Longrightarrow> \<forall>e \<in> set evs. is_Send e \<Longrightarrow> run evs s = s"
proof (induction evs)
  case Nil
  then show ?case by simp
next
  case (Cons e evs)
  from Cons.prems obtain m now where "e = Send m now"
    by (cases e) simp_all
  with Cons show ?case
    by (simp add: step_Send_loading del: step.simps)
qed

lemma run_append: "run (xs @ ys) s = run ys (run xs s)"
  by (induction xs arbitrary: s) simp_all

subsection \<open>The session id over time\<close>

lemma step_session_agrees:
  assumes "session_agrees s" and "e = Clear \<longrightarrow> in_flight s = []"
  shows "session_agrees (step e s)"
proof -
  have sf: "single_flight (step e s)"
    using assms by (simp add: session_agrees_def step_single_flight)
  have ne: "sessionId (hook (step e s)) \<noteq> Some []"
    using assms(1) by (simp add: session_agrees_def step_sessionId_nonempty)
  have "\<forall>p \<in> set (in_flight (step e s)).
          c_sessionId (fst p) = sessionId (hook (step e s))
          \<and> req_session_id (snd p) = sessionId (hook (step e s))"
  proof (cases e)
    case (Send m now)
    with assms(1) show ?thesis
      by (auto simp: session_agrees_def sendMessage_start_def useChat_def
          ApiService_sendMessage_def)
  next
    case (Settle i res now)
    with assms(1) show ?thesis
      by (cases "in_flight s") (auto simp: session_agrees_def single_flight_def)
  next
    case Clear
    with assms show ?thesis by simp
  next
    case (Load res)
    with assms(1) show ?thesis
      by (auto simp: session_agrees_def loadChatHistory_def split: sum.splits option.splits)
  qed
  with sf ne show ?thesis by (simp add: session_agrees_def)
qed

lemma run_session_agrees:
  "session_agrees s \<Longrightarrow> clear_only_idle evs s \<Longrightarrow> session_agrees (run evs s)"
  by (induction evs arbitrary: s) (simp_all add: step_session_agrees)

lemma session_agrees_start: "session_agrees start"
  by (simp add: session_agrees_def single_flight_start) (simp add: start_def initial_def)

lemma step_sessionId_stable:
  assumes "session_agrees s" and "e \<noteq> Clear" and "sessionId (hook s) = Some sid"
  shows "sessionId (hook (step e s)) = Some sid"
proof (cases e)
  case (Send m now)
  with assms show ?thesis by (auto simp: sendMessage_start_def)
next
  case (Settle i res now)
  with assms show ?thesis
    by (cases "in_flight s")
      (auto simp: session_agrees_def single_flight_def sendMessage_finish_def truthy_def
        Let_def split: sum.splits)
next
  case Clear
  with assms show ?thesis by simp
next
  case (Load res)
  with assms show ?thesis
    by (auto simp: loadChatHistory_def split: sum.splits option.splits)
qed

lemma run_sessionId_stable:
  "session_agrees s \<Longrightarrow> Clear \<notin> set evs \<Longrightarrow> sessionId (hook s) = Some sid \<Longrightarrow>
   session_agrees (run evs s) \<and> sessionId (hook (run evs s)) = Some sid"
proof (induction evs arbitrary: s)
  case Nil
  then show ?case by simp
next
  case (Cons e evs)
  from Cons.prems have "e \<noteq> Clear" and "Clear \<notin> set evs" by auto
  with Cons.prems have "session_agrees (step e s)" and "sessionId (hook (step e s)) = Some sid"
    by (simp_all add: step_session_agrees step_sessionId_stable)
  with Cons.IH [of "step e s"] \<open>Clear \<notin> set evs\<close> show ?case by simp
qed

section \<open>Properties of the hook and of the message bubble\<close>

text \<open>
  C1 (as stated: after the call the log is the old log with the user message and one
  assistant message appended). The call is pending across its \<^verbatim>\<open>await\<close>, and the clear
  button is live meanwhile: when \<^verbatim>\<open>clearChat\<close> runs before the call settles, the log
  after the call holds the assistant message alone.
\<close>

theorem log_after_clear_while_pending:
  "trim (js ''red dresses'') \<noteq> []
   \<and> in_flight (start :: (nat, nat) system) = []
   \<and> \<not> isLoading (hook (start :: (nat, nat) system))
   \<and> messages (hook (run [Send (js ''red dresses'') (js ''t1''), Clear,
         Settle 0 (Inr \<lparr>response = js ''Here are some dresses'', r_intent = js ''product_search'',
                         session_id = js ''s1'', r_products = None, r_orders = None\<rparr>) (js ''t2'')]
        (start :: (nat, nat) system)))
     = [assistantMessage \<lparr>response = js ''Here are some dresses'', r_intent = js ''product_search'',
                         session_id = js ''s1'', r_products = None, r_orders = None\<rparr> (js ''t2'')]
   \<and> messages (hook (run [Send (js ''red dresses'') (js ''t1''), Clear,
         Settle 0 (Inr \<lparr>response = js ''Here are some dresses'', r_intent = js ''product_search'',
                         session_id = js ''s1'', r_products = None, r_orders = None\<rparr>) (js ''t2'')]
        (start :: (nat, nat) system)))
     \<noteq> messages (hook (start :: (nat, nat) system))
         @ [userMessage (js ''red dresses'') (js ''t1''),
            assistantMessage \<lparr>response = js ''Here are some dresses'',
                         r_intent = js ''product_search'', session_id = js ''s1'',
                         r_products = None, r_orders = None\<rparr> (js ''t2'')]"
proof -
  have a: "trim (js ''red dresses'') \<noteq> []"
    by (simp add: trim_def js_def isWhiteSpace_def)
  show ?thesis
    by (simp add: a start_def initial_def sendMessage_start_def sendMessage_finish_def
        useChat_def clearChat_def truthy_def Let_def)
qed

text \<open>
  C1, amended. An invocation of \<^verbatim>\<open>sendMessage\<close> with a message whose trimmed content is
  not empty, while no request is in flight, appends the user message carrying the trimmed
  content at once and, when its call settles, exactly one assistant message (built from
  the response, or by the error handler) at the end of the log as it is then. When the
  only operations of the hook invoked while the call is pending are further
  \<^verbatim>\<open>sendMessage\<close> invocations, so that neither \<^verbatim>\<open>clearChat\<close> nor \<^verbatim>\<open>loadChatHistory\<close>
  runs in between, the log after the call is the old log followed by exactly these two
  messages, whether the call resolves or rejects.
\<close>

theorem sendMessage_appends_pair_unless_interrupted:
  fixes s :: "('p, 'o) system" and st :: "('p, 'o) chat_state"
  shows "(trim message \<noteq> [] \<and> in_flight s = [] \<and> \<not> isLoading (hook s)
          \<and> (\<forall>e \<in> set evs. is_Send e) \<longrightarrow>
            (\<exists>u a. messages (hook (run (Send message now1 # evs @ [Settle 0 res now2]) s)) =
                      messages (hook s) @ [u, a]
               \<and> u = userMessage message now1 \<and> mtype u = User
               \<and> content u = JString (trim message)
               \<and> a = (case res of
                         Inl e \<Rightarrow> errorMessage e now2
                       | Inr r \<Rightarrow> assistantMessage r now2)
               \<and> mtype a = Assistant)
            \<and> in_flight (run (Send message now1 # evs @ [Settle 0 res now2]) s) = [])
    \<and> (trim message \<noteq> [] \<and> \<not> c_isLoading c \<longrightarrow>
          messages (fst (sendMessage_start c message now1 st)) =
            messages st @ [userMessage message now1])
    \<and> (\<exists>a. messages (sendMessage_finish c res now2 st) = messages st @ [a]
          \<and> a = (case res of
                    Inl e \<Rightarrow> errorMessage e now2
                  | Inr r \<Rightarrow> assistantMessage r now2)
          \<and> mtype a = Assistant)
    \<and> (trim message \<noteq> [] \<and> \<not> isLoading st \<longrightarrow>
          messages (fst (sendMessage api now1 now2 message st)) =
            messages st @ [userMessage message now1,
              (case api (ApiService_sendMessage (trim message) (sessionId st)) of
                 Inl e \<Rightarrow> errorMessage e now2
               | Inr r \<Rightarrow> assistantMessage r now2)])
    \<and> (in_flight (run evs0 (start :: ('p, 'o) system)) = [] \<longrightarrow>
          \<not> isLoading (hook (run evs0 (start :: ('p, 'o) system))))"
proof -
  have reply: "mtype (case res of
                    Inl e \<Rightarrow> errorMessage e now2
                  | Inr r \<Rightarrow> (assistantMessage r now2 :: ('p, 'o) chat_message)) = Assistant"
    by (simp add: errorMessage_def assistantMessage_def split: sum.splits)
  have finish: "messages (sendMessage_finish c' res now2 st') =
      messages st' @ [case res of
                        Inl e \<Rightarrow> errorMessage e now2
                      | Inr r \<Rightarrow> assistantMessage r now2]"
    for c' and st' :: "('p, 'o) chat_state"
    by (simp add: sendMessage_finish_def Let_def split: sum.splits)
  have whole: "messages (hook (run (Send message now1 # evs @ [Settle 0 res now2]) s)) =
        messages (hook s) @ [userMessage message now1,
          (case res of Inl e \<Rightarrow> errorMessage e now2 | Inr r \<Rightarrow> assistantMessage r now2)]
      \<and> in_flight (run (Send message now1 # evs @ [Settle 0 res now2]) s) = []"
    if n: "trim message \<noteq> []" and f: "in_flight s = []" and l: "\<not> isLoading (hook s)"
      and sends: "\<forall>e \<in> set evs. is_Send e"
  proof -
    define s1 where "s1 = step (Send message now1) s"
    have h1: "messages (hook s1) = messages (hook s) @ [userMessage message now1]"
      and l1: "isLoading (hook s1)" and f1: "length (in_flight s1) = 1"
      using n f l by (simp_all add: s1_def sendMessage_start_def useChat_def)
    have "run evs s1 = s1"
      using l1 sends by (rule run_sends_loading)
    then have "run (Send message now1 # evs @ [Settle 0 res now2]) s =
        step (Settle 0 res now2) s1"
      by (simp add: run_append s1_def del: step.simps)
    with h1 f1 show ?thesis
      by (simp add: finish)
  qed
  have first: "messages (fst (sendMessage_start c message now1 st)) =
      messages st @ [userMessage message now1]"
    if "trim message \<noteq> []" and "\<not> c_isLoading c"
    using that by (simp add: sendMessage_start_def)
  have atomic: "messages (fst (sendMessage api now1 now2 message st)) =
      messages st @ [userMessage message now1,
        (case api (ApiService_sendMessage (trim message) (sessionId st)) of
           Inl e \<Rightarrow> errorMessage e now2
         | Inr r \<Rightarrow> assistantMessage r now2)]"
    if "trim message \<noteq> []" and "\<not> isLoading st"
    using that by (rule sendMessage_messages)
  have idle: "in_flight (run evs0 (start :: ('p, 'o) system)) = [] \<longrightarrow>
      \<not> isLoading (hook (run evs0 (start :: ('p, 'o) system)))"
    by (rule run_idle) (simp add: start_def initial_def)
  have user: "mtype (userMessage message now1 :: ('p, 'o) chat_message) = User"
    "content (userMessage message now1 :: ('p, 'o) chat_message) = JString (trim message)"
    by (simp_all add: userMessage_def)
  from whole user reply have A: "trim message \<noteq> [] \<and> in_flight s = [] \<and> \<not> isLoading (hook s)
          \<and> (\<forall>e \<in> set evs. is_Send e) \<longrightarrow>
            (\<exists>u a. messages (hook (run (Send message now1 # evs @ [Settle 0 res now2]) s)) =
                      messages (hook s) @ [u, a]
               \<and> u = userMessage message now1 \<and> mtype u = User
               \<and> content u = JString (trim message)
               \<and> a = (case res of
                         Inl e \<Rightarrow> errorMessage e now2
                       | Inr r \<Rightarrow> assistantMessage r now2)
               \<and> mtype a = Assistant)
            \<and> in_flight (run (Send message now1 # evs @ [Settle 0 res now2]) s) = []"
    by blast
  from finish [of c st] reply have C: "\<exists>a. messages (sendMessage_finish c res now2 st) = messages st @ [a]
          \<and> a = (case res of
                    Inl e \<Rightarrow> errorMessage e now2
                  | Inr r \<Rightarrow> assistantMessage r now2)
          \<and> mtype a = Assistant"
    by blast
  from A first C atomic idle show ?thesis by blast
qed

theorem sendMessage_appends_pair_unless_interrupted_witness:
  "trim (js '' hi '') \<noteq> []
   \<and> in_flight (start :: (nat, nat) system) = []
   \<and> \<not> isLoading (hook (start :: (nat, nat) system))
   \<and> is_Send (Send (js ''again'') (js ''t2'') :: (nat, nat) event)
   \<and> messages (hook (run [Send (js '' hi '') (js ''t1''), Send (js ''again'') (js ''t2''),
         Settle 0 (Inl (ApiError None)) (js ''t3'')] (start :: (nat, nat) system)))
     = [userMessage (js '' hi '') (js ''t1''), errorMessage (ApiError None) (js ''t3'')]
   \<and> content (userMessage (js '' hi '') (js ''t1'') :: (nat, nat) chat_message) = JString (js ''hi'')
   \<and> \<not> c_isLoading (useChat (initial :: (nat, nat) chat_state))
   \<and> messages (fst (sendMessage_start (useChat (initial :: (nat, nat) chat_state))
         (js '' hi '') (js ''t1'') (initial :: (nat, nat) chat_state)))
     = [userMessage (js '' hi '') (js ''t1'')]
   \<and> \<not> isLoading (initial :: (nat, nat) chat_state)
   \<and> messages (fst (sendMessage (\<lambda>_. Inl (ApiError None)) (js ''t1'') (js ''t3'') (js '' hi '')
         (initial :: (nat, nat) chat_state)))
     = [userMessage (js '' hi '') (js ''t1''), errorMessage (ApiError None) (js ''t3'')]
   \<and> in_flight (run [] (start :: (nat, nat) system)) = []
   \<and> \<not> isLoading (hook (run [] (start :: (nat, nat) system)))"
proof -
  have t: "trim (js '' hi '') = js ''hi''"
    by (simp add: trim_def js_def isWhiteSpace_def)
  have n: "trim (js '' hi '') \<noteq> []"
    by (simp add: t) (simp add: js_def)
  have f: "in_flight (start :: (nat, nat) system) = []"
    and l: "\<not> isLoading (hook (start :: (nat, nat) system))"
    and l': "\<not> isLoading (initial :: (nat, nat) chat_state)"
    and c: "\<not> c_isLoading (useChat (initial :: (nat, nat) chat_state))"
    and h: "messages (hook (start :: (nat, nat) system)) = []"
    and i: "messages (initial :: (nat, nat) chat_state) = []"
    and r: "in_flight (run [] (start :: (nat, nat) system)) = []"
    by (simp_all add: start_def initial_def useChat_def)
  have e: "\<forall>e \<in> set [Send (js ''again'') (js ''t2'') :: (nat, nat) event]. is_Send e"
    and e': "is_Send (Send (js ''again'') (js ''t2'') :: (nat, nat) event)"
    by simp_all
  have u: "content (userMessage (js '' hi '') (js ''t1'') :: (nat, nat) chat_message) = JString (js ''hi'')"
    by (simp add: userMessage_def t)
  note inst = sendMessage_appends_pair_unless_interrupted
    [of "js '' hi ''" "start :: (nat, nat) system" "[Send (js ''again'') (js ''t2'')]"
        "js ''t1''" "Inl (ApiError None)" "js ''t3''"
        "useChat (initial :: (nat, nat) chat_state)" "initial :: (nat, nat) chat_state"
        "\<lambda>_. Inl (ApiError None)" "[]"]
  from inst n f l e h
  have a: "messages (hook (run [Send (js '' hi '') (js ''t1''), Send (js ''again'') (js ''t2''),
         Settle 0 (Inl (ApiError None)) (js ''t3'')] (start :: (nat, nat) system)))
     = [userMessage (js '' hi '') (js ''t1''), errorMessage (ApiError None) (js ''t3'')]"
    by simp
  from inst n c i
  have b: "messages (fst (sendMessage_start (useChat (initial :: (nat, nat) chat_state))
         (js '' hi '') (js ''t1'') (initial :: (nat, nat) chat_state)))
     = [userMessage (js '' hi '') (js ''t1'')]"
    by simp
  from inst n l' i
  have d: "messages (fst (sendMessage (\<lambda>_. Inl (ApiError None)) (js ''t1'') (js ''t3'') (js '' hi '')
         (initial :: (nat, nat) chat_state)))
     = [userMessage (js '' hi '') (js ''t1''), errorMessage (ApiError None) (js ''t3'')]"
    by simp
  from inst r
  have g: "\<not> isLoading (hook (run [] (start :: (nat, nat) system)))"
    by blast
  from n f l e' a u c b l' d r g show ?thesis by blast
qed

text \<open>
  C2. The claim asks that the assistant message appended after a rejected call has a
  non-empty content text. The handler stores \<^verbatim>\<open>error.response?.data?.detail\<close>
  whenever it is truthy, text or not, although \<^verbatim>\<open>content\<close> is declared a string and
  the fallback is a text: for the body of a validation error, whose detail is an array of
  objects, the content of the appended assistant message is that array.
\<close>

theorem error_content_not_text:
  "mtype (last (messages (fst (sendMessage
      (\<lambda>_. Inl (ApiError (Some (ErrorResponse (JObject
         [(js ''detail'', JArray [JObject [(js ''msg'', JString (js ''field required''))]])])))))
      (js ''t1'') (js ''t2'') (js ''hi'') (initial :: (nat, nat) chat_state))))) = Assistant
   \<and> content (last (messages (fst (sendMessage
      (\<lambda>_. Inl (ApiError (Some (ErrorResponse (JObject
         [(js ''detail'', JArray [JObject [(js ''msg'', JString (js ''field required''))]])])))))
      (js ''t1'') (js ''t2'') (js ''hi'') (initial :: (nat, nat) chat_state)))))
     = JArray [JObject [(js ''msg'', JString (js ''field required''))]]
   \<and> \<not> nonempty_text (content (last (messages (fst (sendMessage
      (\<lambda>_. Inl (ApiError (Some (ErrorResponse (JObject
         [(js ''detail'', JArray [JObject [(js ''msg'', JString (js ''field required''))]])])))))
      (js ''t1'') (js ''t2'') (js ''hi'') (initial :: (nat, nat) chat_state))))))"
proof -
  have n: "trim (js ''hi'') \<noteq> []"
    by (simp add: trim_def js_def isWhiteSpace_def)
  have l: "\<not> isLoading (initial :: (nat, nat) chat_state)"
    by (simp add: initial_def)
  show ?thesis
    by (simp add: sendMessage_messages [OF n l] errorMessage_def error_detail_def)
qed

text \<open>
  What the error handler establishes on every rejected call: the appended assistant
  message has intent \<^verbatim>\<open>'error'\<close> and neither products nor orders; its content is the
  server's detail when that is truthy and the fixed apology otherwise, hence always
  truthy, and a non-empty text whenever the detail is a string or is missing or falsy.
\<close>

theorem rejected_call_appends_error_message:
  fixes st :: "('p, 'o) chat_state" and st0 :: "('p, 'o) chat_state"
  shows "sendMessage_finish c (Inl e) now st =
      st\<lparr>messages := messages st @ [errorMessage e now], isLoading := False\<rparr>
    \<and> (trim message \<noteq> [] \<and> \<not> isLoading st0
        \<and> api (ApiService_sendMessage (trim message) (sessionId st0)) = Inl e \<longrightarrow>
          messages (fst (sendMessage api now1 now message st0)) =
            messages st0 @ [userMessage message now1, errorMessage e now])
    \<and> mtype (errorMessage e now :: ('p, 'o) chat_message) = Assistant
    \<and> intent (errorMessage e now :: ('p, 'o) chat_message) = Some (js ''error'')
    \<and> products (errorMessage e now :: ('p, 'o) chat_message) = None
    \<and> orders (errorMessage e now :: ('p, 'o) chat_message) = None
    \<and> content (errorMessage e now :: ('p, 'o) chat_message) =
        (if ToBoolean (error_detail e) then error_detail e else JString apology)
    \<and> apology \<noteq> []
    \<and> ToBoolean (content (errorMessage e now :: ('p, 'o) chat_message))
    \<and> ((\<exists>d. error_detail e = JString d) \<or> \<not> ToBoolean (error_detail e) \<longrightarrow>
          nonempty_text (content (errorMessage e now :: ('p, 'o) chat_message)))"
proof -
  have a: "sendMessage_finish c (Inl e) now st =
      st\<lparr>messages := messages st @ [errorMessage e now], isLoading := False\<rparr>"
    by (simp add: sendMessage_finish_def)
  have b: "messages (fst (sendMessage api now1 now message st0)) =
            messages st0 @ [userMessage message now1, errorMessage e now]"
    if "trim message \<noteq> []" and "\<not> isLoading st0"
      and "api (ApiService_sendMessage (trim message) (sessionId st0)) = Inl e"
    using that by (simp add: sendMessage_rejected)
  have f: "mtype (errorMessage e now :: ('p, 'o) chat_message) = Assistant"
    "intent (errorMessage e now :: ('p, 'o) chat_message) = Some (js ''error'')"
    "products (errorMessage e now :: ('p, 'o) chat_message) = None"
    "orders (errorMessage e now :: ('p, 'o) chat_message) = None"
    by (simp_all add: errorMessage_def)
  have t: "nonempty_text (content (errorMessage e now :: ('p, 'o) chat_message))"
    if "(\<exists>d. error_detail e = JString d) \<or> \<not> ToBoolean (error_detail e)"
    using that by (auto simp: errorMessage_content apology_nonempty)
  from a b f t errorMessage_content [of e now] apology_nonempty
    errorMessage_content_truthy [of e now]
  show ?thesis by blast
qed

theorem rejected_call_appends_error_message_witness:
  "trim (js ''hi'') \<noteq> [] \<and> \<not> isLoading (initial :: (nat, nat) chat_state)
   \<and> messages (fst (sendMessage
        (\<lambda>_. Inl (ApiError (Some (ErrorResponse (JObject [(js ''detail'', JString (js ''Bad''))])))))
        (js ''t1'') (js ''t2'') (js ''hi'') (initial :: (nat, nat) chat_state)))
     = [userMessage (js ''hi'') (js ''t1''),
        errorMessage (ApiError (Some (ErrorResponse (JObject [(js ''detail'', JString (js ''Bad''))]))))
          (js ''t2'')]
   \<and> error_detail (ApiError (Some (ErrorResponse (JObject [(js ''detail'', JString (js ''Bad''))]))))
     = JString (js ''Bad'')
   \<and> content (errorMessage
        (ApiError (Some (ErrorResponse (JObject [(js ''detail'', JString (js ''Bad''))]))))
        (js ''t2'') :: (nat, nat) chat_message) = JString (js ''Bad'')
   \<and> nonempty_text (content (errorMessage
        (ApiError (Some (ErrorResponse (JObject [(js ''detail'', JString (js ''Bad''))]))))
        (js ''t2'') :: (nat, nat) chat_message))
   \<and> \<not> ToBoolean (error_detail (ApiError None))
   \<and> content (errorMessage (ApiError None) (js ''t2'') :: (nat, nat) chat_message) = JString apology
   \<and> nonempty_text (content (errorMessage (ApiError None) (js ''t2'') :: (nat, nat) chat_message))"
proof -
  have n: "trim (js ''hi'') \<noteq> []"
    by (simp add: trim_def js_def isWhiteSpace_def)
  have l: "\<not> isLoading (initial :: (nat, nat) chat_state)"
    and i: "messages (initial :: (nat, nat) chat_state) = []"
    by (simp_all add: initial_def)
  have d: "error_detail (ApiError (Some (ErrorResponse (JObject [(js ''detail'', JString (js ''Bad''))]))))
     = JString (js ''Bad'')"
    by (simp add: error_detail_def)
  have b: "ToBoolean (JString (js ''Bad''))"
    by (simp add: js_def)
  have u: "\<not> ToBoolean (error_detail (ApiError None))"
    by (simp add: error_detail_def)
  note bad = rejected_call_appends_error_message
    [of _ "ApiError (Some (ErrorResponse (JObject [(js ''detail'', JString (js ''Bad''))])))"
        "js ''t2''" _ "js ''hi''" "initial :: (nat, nat) chat_state"
        "\<lambda>_. Inl (ApiError (Some (ErrorResponse (JObject [(js ''detail'', JString (js ''Bad''))]))))"
        "js ''t1''"]
  note none = rejected_call_appends_error_message
    [of _ "ApiError None" "js ''t2''" _ "js ''hi''" "initial :: (nat, nat) chat_state"
        "\<lambda>_. Inl (ApiError None)" "js ''t1''"]
  from bad n l i
  have m: "messages (fst (sendMessage
        (\<lambda>_. Inl (ApiError (Some (ErrorResponse (JObject [(js ''detail'', JString (js ''Bad''))])))))
        (js ''t1'') (js ''t2'') (js ''hi'') (initial :: (nat, nat) chat_state)))
     = [userMessage (js ''hi'') (js ''t1''),
        errorMessage (ApiError (Some (ErrorResponse (JObject [(js ''detail'', JString (js ''Bad''))]))))
          (js ''t2'')]"
    by simp
  from bad d b
  have c1: "content (errorMessage
        (ApiError (Some (ErrorResponse (JObject [(js ''detail'', JString (js ''Bad''))]))))
        (js ''t2'') :: (nat, nat) chat_message) = JString (js ''Bad'')"
    and t1: "nonempty_text (content (errorMessage
        (ApiError (Some (ErrorResponse (JObject [(js ''detail'', JString (js ''Bad''))]))))
        (js ''t2'') :: (nat, nat) chat_message))"
    by simp_all
  from none u
  have c2: "content (errorMessage (ApiError None) (js ''t2'') :: (nat, nat) chat_message) = JString apology"
    and t2: "nonempty_text (content (errorMessage (ApiError None) (js ''t2'') :: (nat, nat) chat_message))"
    by simp_all
  from n l m d c1 t1 u c2 t2 show ?thesis by blast
qed

text \<open>
  C3. A message bubble presents at most three products and at most two orders, whatever
  the lengths of the lists the message carries: of a products list of length \<open>n\<close> it
  shows the first \<open>min n 3\<close> elements in order, of an orders list of length \<open>m\<close> the
  first \<open>min m 2\<close>.
\<close>

theorem displayed_attachments_bounded:
  fixes m :: "('p, 'o) chat_message"
  shows "length (displayed (productsSection m)) \<le> 3
    \<and> length (displayed (ordersSection m)) \<le> 2
    \<and> (\<forall>ps. products m = Some ps \<longrightarrow>
          displayed (productsSection m) = take (min (length ps) 3) ps)
    \<and> (\<forall>os. orders m = Some os \<longrightarrow>
          displayed (ordersSection m) = take (min (length os) 2) os)"
  by (auto simp: displayed_def productsSection_def ordersSection_def slice_arr_0 min_def
      split: option.splits)

theorem displayed_attachments_bounded_witness:
  "products (assistantMessage \<lparr>response = js ''Dresses'', r_intent = js ''product_search'',
       session_id = js ''s1'', r_products = Some [1, 2, 3, 4, 5 :: nat],
       r_orders = Some [7, 8, 9 :: nat]\<rparr> (js ''t'')) = Some [1, 2, 3, 4, 5]
   \<and> displayed (productsSection (assistantMessage \<lparr>response = js ''Dresses'',
       r_intent = js ''product_search'', session_id = js ''s1'',
       r_products = Some [1, 2, 3, 4, 5 :: nat], r_orders = Some [7, 8, 9 :: nat]\<rparr> (js ''t'')))
     = [1, 2, 3]
   \<and> displayed (ordersSection (assistantMessage \<lparr>response = js ''Dresses'',
       r_intent = js ''product_search'', session_id = js ''s1'',
       r_products = Some [1, 2, 3, 4, 5 :: nat], r_orders = Some [7, 8, 9 :: nat]\<rparr> (js ''t'')))
     = [7, 8]"
  using displayed_attachments_bounded [of "assistantMessage \<lparr>response = js ''Dresses'',
       r_intent = js ''product_search'', session_id = js ''s1'',
       r_products = Some [1, 2, 3, 4, 5 :: nat], r_orders = Some [7, 8, 9 :: nat]\<rparr> (js ''t'')"]
  by (simp add: assistantMessage_def)

text \<open>
  C4 (as stated: attachments are mutually exclusive). The client copies both lists of
  the response into the assistant message: a response that carries products and orders
  yields a message that carries both.
\<close>

theorem products_and_orders_together:
  "nonempty (products (last (messages (fst (sendMessage
      (\<lambda>_. Inr \<lparr>response = js ''Your order and similar items'', r_intent = js ''order_inquiry'',
                  session_id = js ''s1'', r_products = Some [1 :: nat],
                  r_orders = Some [2 :: nat]\<rparr>)
      (js ''t1'') (js ''t2'') (js ''hi'') initial)))))
   \<and> nonempty (orders (last (messages (fst (sendMessage
      (\<lambda>_. Inr \<lparr>response = js ''Your order and similar items'', r_intent = js ''order_inquiry'',
                  session_id = js ''s1'', r_products = Some [1 :: nat],
                  r_orders = Some [2 :: nat]\<rparr>)
      (js ''t1'') (js ''t2'') (js ''hi'') initial)))))
   \<and> mtype (last (messages (fst (sendMessage
      (\<lambda>_. Inr \<lparr>response = js ''Your order and similar items'', r_intent = js ''order_inquiry'',
                  session_id = js ''s1'', r_products = Some [1 :: nat],
                  r_orders = Some [2 :: nat]\<rparr>)
      (js ''t1'') (js ''t2'') (js ''hi'') initial)))) = Assistant"
proof -
  have n: "trim (js ''hi'') \<noteq> []"
    by (simp add: trim_def js_def isWhiteSpace_def)
  show ?thesis
    by (simp add: sendMessage_resolved [OF n] initial_def assistantMessage_def nonempty_def)
qed

text \<open>
  C4, amended. The assistant message produced from a chat response carries exactly the
  products and the orders of that response, copied unchanged: it carries both at once
  exactly when the response does, and never both when the response has at most one.
\<close>

theorem attachments_copied_from_response:
  fixes st :: "('p, 'o) chat_state"
  assumes "trim message \<noteq> []" and "\<not> isLoading st"
    and "api (ApiService_sendMessage (trim message) (sessionId st)) = Inr r"
  shows "\<exists>a. messages (fst (sendMessage api now1 now2 message st)) =
               messages st @ [userMessage message now1, a]
      \<and> a = assistantMessage r now2 \<and> mtype a = Assistant
      \<and> products a = r_products r \<and> orders a = r_orders r
      \<and> ((nonempty (products a) \<and> nonempty (orders a)) =
           (nonempty (r_products r) \<and> nonempty (r_orders r)))"
  using assms by (simp add: sendMessage_resolved assistantMessage_def)

theorem attachments_copied_from_response_witness:
  "trim (js ''hi'') \<noteq> [] \<and> \<not> isLoading (initial :: (nat, nat) chat_state)
   \<and> (\<exists>a. messages (fst (sendMessage
              (\<lambda>_. Inr \<lparr>response = js ''Dresses'', r_intent = js ''product_search'',
                  session_id = js ''s1'', r_products = Some [1, 2 :: nat], r_orders = None\<rparr>)
              (js ''t1'') (js ''t2'') (js ''hi'') (initial :: (nat, nat) chat_state))) =
            [userMessage (js ''hi'') (js ''t1''), a]
        \<and> products a = Some [1, 2] \<and> orders a = None
        \<and> \<not> (nonempty (products a) \<and> nonempty (orders a)))"
proof -
  have n: "trim (js ''hi'') \<noteq> []"
    by (simp add: trim_def js_def isWhiteSpace_def)
  have l: "\<not> isLoading (initial :: (nat, nat) chat_state)"
    by (simp add: initial_def)
  show ?thesis
    using attachments_copied_from_response [OF n l,
        of "\<lambda>_. Inr \<lparr>response = js ''Dresses'', r_intent = js ''product_search'',
                  session_id = js ''s1'', r_products = Some [1, 2 :: nat], r_orders = None\<rparr>"
           "\<lparr>response = js ''Dresses'', r_intent = js ''product_search'',
                  session_id = js ''s1'', r_products = Some [1, 2 :: nat], r_orders = None\<rparr>"
           "js ''t1''" "js ''t2''"] n l
    by (auto simp: initial_def nonempty_def)
qed

text \<open>
  C5 (as stated: the intent of an assistant message is one of the four labels). The
  client stores the response's intent string as it arrives: a response labelled
  \<^verbatim>\<open>'greeting'\<close> yields an assistant message whose intent is none of the four.
\<close>

theorem intent_outside_enumeration:
  "mtype (last (messages (fst (sendMessage
      (\<lambda>_. Inr \<lparr>response = js ''Hello'', r_intent = js ''greeting'',
                  session_id = js ''s1'', r_products = None :: nat list option,
                  r_orders = None :: nat list option\<rparr>)
      (js ''t1'') (js ''t2'') (js ''hi'') initial)))) = Assistant
   \<and> \<not> valid_intent (intent (last (messages (fst (sendMessage
      (\<lambda>_. Inr \<lparr>response = js ''Hello'', r_intent = js ''greeting'',
                  session_id = js ''s1'', r_products = None :: nat list option,
                  r_orders = None :: nat list option\<rparr>)
      (js ''t1'') (js ''t2'') (js ''hi'') initial)))))"
proof -
  have n: "trim (js ''hi'') \<noteq> []"
    by (simp add: trim_def js_def isWhiteSpace_def)
  have g: "js ''greeting'' \<notin> set intents"
    by (simp add: intents_def js_def)
  show ?thesis
    by (simp add: sendMessage_resolved [OF n] initial_def assistantMessage_def
        valid_intent_def g)
qed

text \<open>
  C5, amended. Every assistant message appended by \<^verbatim>\<open>sendMessage\<close> has its intent
  present: it is the intent string of the response, copied unchanged (so one of the four
  labels exactly when the response's is), or \<^verbatim>\<open>'error'\<close> from the error handler, which
  is one of the four. \<^verbatim>\<open>loadChatHistory\<close> restores the intent of each stored message
  as it is stored, present or not.
\<close>

theorem intent_copied_or_error:
  fixes st :: "('p, 'o) chat_state"
  shows "(trim message \<noteq> [] \<and> \<not> isLoading st \<longrightarrow>
      (\<exists>u a. messages (fst (sendMessage api now1 now2 message st)) = messages st @ [u, a]
         \<and> mtype a = Assistant
         \<and> intent a = (case api (ApiService_sendMessage (trim message) (sessionId st)) of
                         Inl e \<Rightarrow> Some (js ''error'')
                       | Inr r \<Rightarrow> Some (r_intent r))
         \<and> valid_intent (intent a) =
             (case api (ApiService_sendMessage (trim message) (sessionId st)) of
                Inl e \<Rightarrow> True
              | Inr r \<Rightarrow> r_intent r \<in> set intents)))
    \<and> (\<forall>sid history. sessionId st = Some sid \<and> sid \<noteq> [] \<and> getChatHistory sid = Inr history \<longrightarrow>
          map intent (messages (loadChatHistory getChatHistory st)) = map intent history)"
proof -
  have e: "js ''error'' \<in> set intents"
    by (simp add: intents_def)
  have "\<exists>u a. messages (fst (sendMessage api now1 now2 message st)) = messages st @ [u, a]
         \<and> mtype a = Assistant
         \<and> intent a = (case api (ApiService_sendMessage (trim message) (sessionId st)) of
                         Inl e \<Rightarrow> Some (js ''error'')
                       | Inr r \<Rightarrow> Some (r_intent r))
         \<and> valid_intent (intent a) =
             (case api (ApiService_sendMessage (trim message) (sessionId st)) of
                Inl e \<Rightarrow> True
              | Inr r \<Rightarrow> r_intent r \<in> set intents)"
    if "trim message \<noteq> []" and "\<not> isLoading st"
    using that e
    by (simp add: sendMessage_messages errorMessage_def assistantMessage_def valid_intent_def
        split: sum.splits)
  moreover have "map intent (messages (loadChatHistory getChatHistory st)) = map intent history"
    if "sessionId st = Some sid" and "sid \<noteq> []" and "getChatHistory sid = Inr history"
    for sid history
    using that
    by (simp add: loadChatHistory_def useChat_def truthy_def formatMessage_def comp_def)
  ultimately show ?thesis by blast
qed

theorem intent_copied_or_error_witness:
  "trim (js ''hi'') \<noteq> [] \<and> \<not> isLoading (initial :: (nat, nat) chat_state)
   \<and> (\<exists>u a. messages (fst (sendMessage
              (\<lambda>_. Inr \<lparr>response = js ''Dresses'', r_intent = js ''product_search'',
                  session_id = js ''s1'', r_products = None, r_orders = None\<rparr>)
              (js ''t1'') (js ''t2'') (js ''hi'') (initial :: (nat, nat) chat_state))) = [u, a]
        \<and> intent a = Some (js ''product_search'') \<and> valid_intent (intent a))
   \<and> map intent (messages (loadChatHistory
        (\<lambda>_. Inr [\<lparr>mtype = Assistant, content = JString (js ''Dresses''), timestamp = js ''t0'',
                    intent = Some (js ''product_search''), products = Some [1 :: nat],
                    orders = None :: nat list option\<rparr>])
        (initial\<lparr>sessionId := Some (js ''s1'')\<rparr>))) = [Some (js ''product_search'')]"
proof -
  have n: "trim (js ''hi'') \<noteq> []"
    by (simp add: trim_def js_def isWhiteSpace_def)
  have l: "\<not> isLoading (initial :: (nat, nat) chat_state)"
    by (simp add: initial_def)
  have p: "js ''product_search'' \<in> set intents"
    by (simp add: intents_def)
  have s: "js ''s1'' \<noteq> []"
    by (simp add: js_def)
  have a: "\<exists>u a. messages (fst (sendMessage
              (\<lambda>_. Inr \<lparr>response = js ''Dresses'', r_intent = js ''product_search'',
                  session_id = js ''s1'', r_products = None, r_orders = None\<rparr>)
              (js ''t1'') (js ''t2'') (js ''hi'') (initial :: (nat, nat) chat_state))) = [u, a]
        \<and> intent a = Some (js ''product_search'') \<and> valid_intent (intent a)"
    using intent_copied_or_error [of "js ''hi''" "initial :: (nat, nat) chat_state"
        "\<lambda>_. Inr \<lparr>response = js ''Dresses'', r_intent = js ''product_search'',
                  session_id = js ''s1'', r_products = None, r_orders = None\<rparr>"
        "js ''t1''" "js ''t2''"] n l p
    by (auto simp: initial_def)
  have b: "map intent (messages (loadChatHistory
        (\<lambda>_. Inr [\<lparr>mtype = Assistant, content = JString (js ''Dresses''), timestamp = js ''t0'',
                    intent = Some (js ''product_search''), products = Some [1 :: nat],
                    orders = None :: nat list option\<rparr>])
        (initial\<lparr>sessionId := Some (js ''s1'')\<rparr>))) = [Some (js ''product_search'')]"
    using intent_copied_or_error [of "js ''hi''" "initial\<lparr>sessionId := Some (js ''s1'')\<rparr>"
        "\<lambda>_. Inl (ApiError None)" "js ''t1''" "js ''t2''"
        "\<lambda>_. Inr [\<lparr>mtype = Assistant, content = JString (js ''Dresses''), timestamp = js ''t0'',
                    intent = Some (js ''product_search''), products = Some [1 :: nat],
                    orders = None :: nat list option\<rparr>]"] s
    by (simp add: initial_def)
  from a b n l show ?thesis by blast
qed

text \<open>
  C6 (as stated: at most one request is ever in flight). \<^verbatim>\<open>clearChat\<close> lowers the
  loading flag while a call is pending, so the next \<^verbatim>\<open>sendMessage\<close> passes the guard:
  after a send, a clear and a second send, two calls are in flight.
\<close>

theorem two_requests_in_flight_after_clear:
  "length (in_flight (run [Send (js ''red dresses'') (js ''t1''), Clear,
                           Send (js ''shoes'') (js ''t2'')]
                      (start :: (nat, nat) system))) = 2
   \<and> length (in_flight (run [Send (js ''red dresses'') (js ''t1'')]
                      (start :: (nat, nat) system))) = 1
   \<and> isLoading (hook (run [Send (js ''red dresses'') (js ''t1'')]
                      (start :: (nat, nat) system)))
   \<and> \<not> isLoading (hook (run [Send (js ''red dresses'') (js ''t1''), Clear]
                      (start :: (nat, nat) system)))"
proof -
  have a: "trim (js ''red dresses'') \<noteq> []"
    by (simp add: trim_def js_def isWhiteSpace_def)
  have b: "trim (js ''shoes'') \<noteq> []"
    by (simp add: trim_def js_def isWhiteSpace_def)
  show ?thesis
    by (simp add: start_def initial_def sendMessage_start_def useChat_def clearChat_def a b)
qed

text \<open>
  C6, amended. Whenever \<^verbatim>\<open>isLoading\<close> is true, an invocation of \<^verbatim>\<open>sendMessage\<close>
  returns without issuing an API call and without changing the message log, the session
  id or the loading flag. Hence, as long as \<^verbatim>\<open>clearChat\<close> is not invoked while a call
  is pending, at most one request is in flight, the flag is up exactly while it is, and
  a further \<^verbatim>\<open>sendMessage\<close> has no effect until the pending call has settled and
  \<^verbatim>\<open>finally\<close> has reset the flag.
\<close>

theorem one_request_in_flight_unless_cleared:
  fixes st :: "('p, 'o) chat_state"
  shows "(isLoading st \<longrightarrow> sendMessage api now1 now2 message st = (st, []))
    \<and> (clear_only_idle evs (start :: ('p, 'o) system) \<longrightarrow>
         length (in_flight (run evs (start :: ('p, 'o) system))) \<le> 1
         \<and> isLoading (hook (run evs (start :: ('p, 'o) system))) =
             (in_flight (run evs (start :: ('p, 'o) system)) \<noteq> [])
         \<and> (in_flight (run evs (start :: ('p, 'o) system)) \<noteq> [] \<longrightarrow>
              step (Send message now) (run evs start) = run evs (start :: ('p, 'o) system)))"
proof -
  have "single_flight (run evs (start :: ('p, 'o) system))"
    if "clear_only_idle evs (start :: ('p, 'o) system)"
    using that by (simp add: run_single_flight single_flight_start)
  then have sf: "length (in_flight (run evs (start :: ('p, 'o) system))) \<le> 1
      \<and> isLoading (hook (run evs (start :: ('p, 'o) system))) =
          (in_flight (run evs (start :: ('p, 'o) system)) \<noteq> [])"
    if "clear_only_idle evs (start :: ('p, 'o) system)"
    using that by (simp add: single_flight_def)
  have idle: "step (Send message now) (run evs start) = run evs (start :: ('p, 'o) system)"
    if "clear_only_idle evs (start :: ('p, 'o) system)"
      and "in_flight (run evs (start :: ('p, 'o) system)) \<noteq> []"
    using sf [OF that(1)] that(2) by (intro step_Send_loading) simp
  have guard: "sendMessage api now1 now2 message st = (st, [])" if "isLoading st"
    using that by (simp add: sendMessage_guarded)
  from sf idle guard show ?thesis by blast
qed

theorem one_request_in_flight_unless_cleared_witness:
  "isLoading (hook (run [Send (js ''red dresses'') (js ''t1'')] (start :: (nat, nat) system)))
   \<and> sendMessage (\<lambda>_. Inl (ApiError None)) (js ''t2'') (js ''t3'') (js ''shoes'')
        (hook (run [Send (js ''red dresses'') (js ''t1'')] (start :: (nat, nat) system)))
      = (hook (run [Send (js ''red dresses'') (js ''t1'')] (start :: (nat, nat) system)), [])
   \<and> clear_only_idle [Send (js ''red dresses'') (js ''t1'')] (start :: (nat, nat) system)
   \<and> in_flight (run [Send (js ''red dresses'') (js ''t1'')] (start :: (nat, nat) system)) \<noteq> []
   \<and> length (in_flight (run [Send (js ''red dresses'') (js ''t1'')] (start :: (nat, nat) system))) \<le> 1
   \<and> step (Send (js ''shoes'') (js ''t2''))
        (run [Send (js ''red dresses'') (js ''t1'')] (start :: (nat, nat) system))
      = run [Send (js ''red dresses'') (js ''t1'')] (start :: (nat, nat) system)"
proof -
  have a: "trim (js ''red dresses'') \<noteq> []"
    by (simp add: trim_def js_def isWhiteSpace_def)
  have l: "isLoading (hook (run [Send (js ''red dresses'') (js ''t1'')] (start :: (nat, nat) system)))"
    by (simp add: start_def initial_def sendMessage_start_def useChat_def a)
  have c: "clear_only_idle [Send (js ''red dresses'') (js ''t1'')] (start :: (nat, nat) system)"
    by simp
  have f: "in_flight (run [Send (js ''red dresses'') (js ''t1'')] (start :: (nat, nat) system)) \<noteq> []"
    by (simp add: start_def initial_def sendMessage_start_def useChat_def a)
  show ?thesis
    using one_request_in_flight_unless_cleared
      [of "hook (run [Send (js ''red dresses'') (js ''t1'')] (start :: (nat, nat) system))"
          "\<lambda>_. Inl (ApiError None)" "js ''t2''" "js ''t3''" "js ''shoes''"
          "[Send (js ''red dresses'') (js ''t1'')]" "js ''t2''"] l c f
    by blast
qed

text \<open>
  C7 (as stated: a null session id is replaced by the one the response echoes, and a
  non-null one is left unchanged by every later call). The adoption is guarded by
  \<^verbatim>\<open>response.session_id\<close> being truthy: a response whose session id is the empty string
  is not adopted. And each call decides by the session id its closure captured: after a
  \<^verbatim>\<open>clearChat\<close> while a call is pending, two calls are in flight that both captured
  null, and the second to settle overwrites the id the first established.
\<close>

theorem session_id_not_adopted_or_overwritten:
  "sessionId (initial :: (nat, nat) chat_state) = None
   \<and> snd (sendMessage
      (\<lambda>_. Inr \<lparr>response = js ''Hello'', r_intent = js ''general'', session_id = [],
                  r_products = None :: nat list option, r_orders = None :: nat list option\<rparr>)
      (js ''t1'') (js ''t2'') (js ''hi'') initial)
     = [\<lparr>req_message = js ''hi'', req_session_id = None\<rparr>]
   \<and> sessionId (fst (sendMessage
      (\<lambda>_. Inr \<lparr>response = js ''Hello'', r_intent = js ''general'', session_id = [],
                  r_products = None :: nat list option, r_orders = None :: nat list option\<rparr>)
      (js ''t1'') (js ''t2'') (js ''hi'') initial)) = None
   \<and> sessionId (fst (sendMessage
      (\<lambda>_. Inr \<lparr>response = js ''Hello'', r_intent = js ''general'', session_id = [],
                  r_products = None :: nat list option, r_orders = None :: nat list option\<rparr>)
      (js ''t1'') (js ''t2'') (js ''hi'') initial))
     \<noteq> Some (session_id \<lparr>response = js ''Hello'', r_intent = js ''general'', session_id = [],
                  r_products = None :: nat list option, r_orders = None :: nat list option\<rparr>)
   \<and> sessionId (hook (run [Send (js ''red dresses'') (js ''t1''), Clear,
        Send (js ''shoes'') (js ''t2''),
        Settle 0 (Inr \<lparr>response = js ''Dresses'', r_intent = js ''product_search'',
                        session_id = js ''s1'', r_products = None, r_orders = None\<rparr>) (js ''t3'')]
       (start :: (nat, nat) system))) = Some (js ''s1'')
   \<and> sessionId (hook (run [Send (js ''red dresses'') (js ''t1''), Clear,
        Send (js ''shoes'') (js ''t2''),
        Settle 0 (Inr \<lparr>response = js ''Dresses'', r_intent = js ''product_search'',
                        session_id = js ''s1'', r_products = None, r_orders = None\<rparr>) (js ''t3''),
        Settle 0 (Inr \<lparr>response = js ''Shoes'', r_intent = js ''product_search'',
                        session_id = js ''s2'', r_products = None, r_orders = None\<rparr>) (js ''t4'')]
       (start :: (nat, nat) system))) = Some (js ''s2'')
   \<and> js ''s1'' \<noteq> js ''s2''"
proof -
  have t: "trim (js ''hi'') = js ''hi''"
    by (simp add: trim_def js_def isWhiteSpace_def)
  have n: "trim (js ''hi'') \<noteq> []"
    by (simp add: t) (simp add: js_def)
  have a: "trim (js ''red dresses'') \<noteq> []"
    by (simp add: trim_def js_def isWhiteSpace_def)
  have b: "trim (js ''shoes'') \<noteq> []"
    by (simp add: trim_def js_def isWhiteSpace_def)
  have s: "js ''s1'' \<noteq> []" "js ''s2'' \<noteq> []" "js ''s1'' \<noteq> js ''s2''"
    by (simp_all add: js_def)
  have one: "sessionId (initial :: (nat, nat) chat_state) = None
   \<and> snd (sendMessage
      (\<lambda>_. Inr \<lparr>response = js ''Hello'', r_intent = js ''general'', session_id = [],
                  r_products = None :: nat list option, r_orders = None :: nat list option\<rparr>)
      (js ''t1'') (js ''t2'') (js ''hi'') initial)
     = [\<lparr>req_message = js ''hi'', req_session_id = None\<rparr>]
   \<and> sessionId (fst (sendMessage
      (\<lambda>_. Inr \<lparr>response = js ''Hello'', r_intent = js ''general'', session_id = [],
                  r_products = None :: nat list option, r_orders = None :: nat list option\<rparr>)
      (js ''t1'') (js ''t2'') (js ''hi'') initial)) = None"
    by (simp add: sendMessage_resolved [OF n] initial_def ApiService_sendMessage_def t)
  have two: "sessionId (hook (run [Send (js ''red dresses'') (js ''t1''), Clear,
        Send (js ''shoes'') (js ''t2''),
        Settle 0 (Inr \<lparr>response = js ''Dresses'', r_intent = js ''product_search'',
                        session_id = js ''s1'', r_products = None, r_orders = None\<rparr>) (js ''t3'')]
       (start :: (nat, nat) system))) = Some (js ''s1'')"
    by (simp add: a b s start_def initial_def sendMessage_start_def sendMessage_finish_def
        useChat_def clearChat_def truthy_def Let_def)
  have three: "sessionId (hook (run [Send (js ''red dresses'') (js ''t1''), Clear,
        Send (js ''shoes'') (js ''t2''),
        Settle 0 (Inr \<lparr>response = js ''Dresses'', r_intent = js ''product_search'',
                        session_id = js ''s1'', r_products = None, r_orders = None\<rparr>) (js ''t3''),
        Settle 0 (Inr \<lparr>response = js ''Shoes'', r_intent = js ''product_search'',
                        session_id = js ''s2'', r_products = None, r_orders = None\<rparr>) (js ''t4'')]
       (start :: (nat, nat) system))) = Some (js ''s2'')"
    by (simp add: a b s start_def initial_def sendMessage_start_def sendMessage_finish_def
        useChat_def clearChat_def truthy_def Let_def)
  from one two three s(3) show ?thesis by simp
qed

text \<open>
  C7, amended. As long as \<^verbatim>\<open>clearChat\<close> is not invoked while a call is pending: when
  \<^verbatim>\<open>sessionId\<close> is null and the response of the pending call echoes a non-empty
  \<^verbatim>\<open>session_id\<close>, the hook adopts it (an empty one is not adopted); and once
  \<^verbatim>\<open>sessionId\<close> is non-null it stays that same id until a \<^verbatim>\<open>clearChat\<close> resets it:
  every later invocation of \<^verbatim>\<open>sendMessage\<close> passes it to the API and leaves it
  unchanged, whether its call resolves or rejects. An invocation always passes the
  session id of the render it was created in, null included, and the id the hook holds
  is never the empty string.
\<close>

theorem session_id_adopted_then_stable:
  fixes st :: "('p, 'o) chat_state"
  shows "(clear_only_idle evs (start :: ('p, 'o) system)
          \<and> sessionId (hook (run evs (start :: ('p, 'o) system))) = None
          \<and> in_flight (run evs (start :: ('p, 'o) system)) \<noteq> [] \<and> session_id r \<noteq> [] \<longrightarrow>
            sessionId (hook (step (Settle 0 (Inr r) now) (run evs (start :: ('p, 'o) system))))
              = Some (session_id r))
    \<and> (clear_only_idle evs (start :: ('p, 'o) system) \<and> Clear \<notin> set evs'
        \<and> sessionId (hook (run evs (start :: ('p, 'o) system))) = Some sid \<longrightarrow>
            sessionId (hook (run evs' (run evs (start :: ('p, 'o) system)))) = Some sid
            \<and> (\<forall>p \<in> set (in_flight (run evs' (run evs (start :: ('p, 'o) system)))).
                  req_session_id (snd p) = Some sid))
    \<and> (trim message \<noteq> [] \<and> \<not> isLoading st \<longrightarrow>
          snd (sendMessage_start (useChat st) message now st) =
            Some \<lparr>req_message = trim message, req_session_id = sessionId st\<rparr>
          \<and> sessionId (fst (sendMessage_start (useChat st) message now st)) = sessionId st)
    \<and> (session_id r = [] \<or> truthy (c_sessionId c) \<longrightarrow>
          sessionId (sendMessage_finish c (Inr r) now st) = sessionId st)
    \<and> sessionId (sendMessage_finish c (Inl e) now st) = sessionId st
    \<and> sessionId (hook (run evs (start :: ('p, 'o) system))) \<noteq> Some []"
proof -
  have adopt: "sessionId (hook (step (Settle 0 (Inr r) now) (run evs (start :: ('p, 'o) system))))
      = Some (session_id r)"
    if c: "clear_only_idle evs (start :: ('p, 'o) system)"
      and n: "sessionId (hook (run evs (start :: ('p, 'o) system))) = None"
      and f: "in_flight (run evs (start :: ('p, 'o) system)) \<noteq> []"
      and r: "session_id r \<noteq> []"
  proof -
    have "session_agrees (run evs (start :: ('p, 'o) system))"
      using c by (simp add: run_session_agrees session_agrees_start)
    with n f have "c_sessionId (fst (in_flight (run evs (start :: ('p, 'o) system)) ! 0)) = None"
      by (cases "in_flight (run evs (start :: ('p, 'o) system))")
        (auto simp: session_agrees_def)
    with f r show ?thesis
      by (simp add: sendMessage_finish_def truthy_def Let_def)
  qed
  have stable: "sessionId (hook (run evs' (run evs (start :: ('p, 'o) system)))) = Some sid
      \<and> (\<forall>p \<in> set (in_flight (run evs' (run evs (start :: ('p, 'o) system)))).
            req_session_id (snd p) = Some sid)"
    if c: "clear_only_idle evs (start :: ('p, 'o) system)" and n: "Clear \<notin> set evs'"
      and s: "sessionId (hook (run evs (start :: ('p, 'o) system))) = Some sid"
  proof -
    have "session_agrees (run evs (start :: ('p, 'o) system))"
      using c by (simp add: run_session_agrees session_agrees_start)
    from run_sessionId_stable [OF this n s] show ?thesis
      by (simp add: session_agrees_def)
  qed
  have post: "snd (sendMessage_start (useChat st) message now st) =
            Some \<lparr>req_message = trim message, req_session_id = sessionId st\<rparr>
          \<and> sessionId (fst (sendMessage_start (useChat st) message now st)) = sessionId st"
    if "trim message \<noteq> []" and "\<not> isLoading st"
    using that by (simp add: sendMessage_start_def useChat_def ApiService_sendMessage_def)
  have keep: "sessionId (sendMessage_finish c (Inr r) now st) = sessionId st"
    if "session_id r = [] \<or> truthy (c_sessionId c)"
    using that by (auto simp: sendMessage_finish_def truthy_def Let_def)
  have rej: "sessionId (sendMessage_finish c (Inl e) now st) = sessionId st"
    by (simp add: sendMessage_finish_def)
  have "sessionId (hook (run evs (start :: ('p, 'o) system))) \<noteq> Some []"
    by (rule run_sessionId_nonempty) (simp add: start_def initial_def)
  with adopt stable post keep rej show ?thesis by blast
qed

theorem session_id_adopted_then_stable_witness:
  "clear_only_idle [Send (js ''hi'') (js ''t1'')] (start :: (nat, nat) system)
   \<and> sessionId (hook (run [Send (js ''hi'') (js ''t1'')] (start :: (nat, nat) system))) = None
   \<and> in_flight (run [Send (js ''hi'') (js ''t1'')] (start :: (nat, nat) system)) \<noteq> []
   \<and> js ''s1'' \<noteq> []
   \<and> sessionId (hook (run [Send (js ''hi'') (js ''t1''),
        Settle 0 (Inr \<lparr>response = js ''Hello'', r_intent = js ''general'', session_id = js ''s1'',
                        r_products = None, r_orders = None\<rparr>) (js ''t2'')]
       (start :: (nat, nat) system))) = Some (js ''s1'')
   \<and> clear_only_idle [Send (js ''hi'') (js ''t1''),
        Settle 0 (Inr \<lparr>response = js ''Hello'', r_intent = js ''general'', session_id = js ''s1'',
                        r_products = None, r_orders = None\<rparr>) (js ''t2'')]
       (start :: (nat, nat) system)
   \<and> Clear \<notin> set [Send (js ''shoes'') (js ''t3'') :: (nat, nat) event]
   \<and> sessionId (hook (run [Send (js ''shoes'') (js ''t3'')]
       (run [Send (js ''hi'') (js ''t1''),
        Settle 0 (Inr \<lparr>response = js ''Hello'', r_intent = js ''general'', session_id = js ''s1'',
                        r_products = None, r_orders = None\<rparr>) (js ''t2'')]
       (start :: (nat, nat) system)))) = Some (js ''s1'')
   \<and> map (\<lambda>p. req_session_id (snd p)) (in_flight (run [Send (js ''shoes'') (js ''t3'')]
       (run [Send (js ''hi'') (js ''t1''),
        Settle 0 (Inr \<lparr>response = js ''Hello'', r_intent = js ''general'', session_id = js ''s1'',
                        r_products = None, r_orders = None\<rparr>) (js ''t2'')]
       (start :: (nat, nat) system)))) = [Some (js ''s1'')]
   \<and> trim (js ''hi'') \<noteq> [] \<and> \<not> isLoading (initial :: (nat, nat) chat_state)
   \<and> snd (sendMessage_start (useChat (initial :: (nat, nat) chat_state)) (js ''hi'') (js ''t1'')
        (initial :: (nat, nat) chat_state))
     = Some \<lparr>req_message = trim (js ''hi''), req_session_id = None\<rparr>
   \<and> truthy (c_sessionId \<lparr>c_isLoading = False, c_sessionId = Some (js ''s1'')\<rparr>)
   \<and> sessionId (sendMessage_finish \<lparr>c_isLoading = False, c_sessionId = Some (js ''s1'')\<rparr>
        (Inr \<lparr>response = js ''Shoes'', r_intent = js ''general'', session_id = js ''s2'',
              r_products = None, r_orders = None\<rparr>) (js ''t4'')
        ((initial :: (nat, nat) chat_state)\<lparr>sessionId := Some (js ''s1'')\<rparr>)) = Some (js ''s1'')"
proof -
  have n: "trim (js ''hi'') \<noteq> []"
    by (simp add: trim_def js_def isWhiteSpace_def)
  have m: "trim (js ''shoes'') \<noteq> []"
    by (simp add: trim_def js_def isWhiteSpace_def)
  have s: "js ''s1'' \<noteq> []"
    by (simp add: js_def)
  have l: "\<not> isLoading (initial :: (nat, nat) chat_state)"
    and i: "sessionId (initial :: (nat, nat) chat_state) = None"
    by (simp_all add: initial_def)
  have c1: "clear_only_idle [Send (js ''hi'') (js ''t1'')] (start :: (nat, nat) system)"
    by simp
  have c2: "clear_only_idle [Send (js ''hi'') (js ''t1''),
        Settle 0 (Inr \<lparr>response = js ''Hello'', r_intent = js ''general'', session_id = js ''s1'',
                        r_products = None, r_orders = None\<rparr>) (js ''t2'')]
       (start :: (nat, nat) system)"
    by simp
  have c3: "Clear \<notin> set [Send (js ''shoes'') (js ''t3'') :: (nat, nat) event]"
    by simp
  have p1: "sessionId (hook (run [Send (js ''hi'') (js ''t1'')] (start :: (nat, nat) system))) = None"
    and p2: "in_flight (run [Send (js ''hi'') (js ''t1'')] (start :: (nat, nat) system)) \<noteq> []"
    by (simp_all add: n start_def initial_def sendMessage_start_def useChat_def)
  have tr: "truthy (c_sessionId \<lparr>c_isLoading = False, c_sessionId = Some (js ''s1'')\<rparr>)"
    by (simp add: truthy_def s)
  have a: "sessionId (hook (run [Send (js ''hi'') (js ''t1''),
        Settle 0 (Inr \<lparr>response = js ''Hello'', r_intent = js ''general'', session_id = js ''s1'',
                        r_products = None, r_orders = None\<rparr>) (js ''t2'')]
       (start :: (nat, nat) system))) = Some (js ''s1'')"
    using session_id_adopted_then_stable
      [where evs = "[Send (js ''hi'') (js ''t1'')] :: (nat, nat) event list"
         and r = "\<lparr>response = js ''Hello'', r_intent = js ''general'', session_id = js ''s1'',
                   r_products = None, r_orders = None\<rparr>"
         and now = "js ''t2''", THEN conjunct1] c1 p1 p2 s
    by simp
  have b: "sessionId (hook (run [Send (js ''shoes'') (js ''t3'')]
       (run [Send (js ''hi'') (js ''t1''),
        Settle 0 (Inr \<lparr>response = js ''Hello'', r_intent = js ''general'', session_id = js ''s1'',
                        r_products = None, r_orders = None\<rparr>) (js ''t2'')]
       (start :: (nat, nat) system)))) = Some (js ''s1'')
     \<and> (\<forall>p \<in> set (in_flight (run [Send (js ''shoes'') (js ''t3'')]
       (run [Send (js ''hi'') (js ''t1''),
        Settle 0 (Inr \<lparr>response = js ''Hello'', r_intent = js ''general'', session_id = js ''s1'',
                        r_products = None, r_orders = None\<rparr>) (js ''t2'')]
       (start :: (nat, nat) system)))). req_session_id (snd p) = Some (js ''s1''))"
    using session_id_adopted_then_stable
      [where evs = "[Send (js ''hi'') (js ''t1''),
        Settle 0 (Inr \<lparr>response = js ''Hello'', r_intent = js ''general'', session_id = js ''s1'',
                        r_products = None, r_orders = None\<rparr>) (js ''t2'')] :: (nat, nat) event list"
         and evs' = "[Send (js ''shoes'') (js ''t3'')]" and sid = "js ''s1''",
       THEN conjunct2, THEN conjunct1] c2 c3 a
    by blast
  have f: "length (in_flight (run [Send (js ''shoes'') (js ''t3'')]
       (run [Send (js ''hi'') (js ''t1''),
        Settle 0 (Inr \<lparr>response = js ''Hello'', r_intent = js ''general'', session_id = js ''s1'',
                        r_products = None, r_orders = None\<rparr>) (js ''t2'')]
       (start :: (nat, nat) system)))) = 1"
    by (simp add: n m start_def initial_def sendMessage_start_def sendMessage_finish_def
        useChat_def Let_def)
  have b': "map (\<lambda>p. req_session_id (snd p)) (in_flight (run [Send (js ''shoes'') (js ''t3'')]
       (run [Send (js ''hi'') (js ''t1''),
        Settle 0 (Inr \<lparr>response = js ''Hello'', r_intent = js ''general'', session_id = js ''s1'',
                        r_products = None, r_orders = None\<rparr>) (js ''t2'')]
       (start :: (nat, nat) system)))) = [Some (js ''s1'')]"
    using b f
    by (cases "in_flight (run [Send (js ''shoes'') (js ''t3'')]
       (run [Send (js ''hi'') (js ''t1''),
        Settle 0 (Inr \<lparr>response = js ''Hello'', r_intent = js ''general'', session_id = js ''s1'',
                        r_products = None, r_orders = None\<rparr>) (js ''t2'')]
       (start :: (nat, nat) system)))") (simp_all del: run.simps step.simps)
  have d: "snd (sendMessage_start (useChat (initial :: (nat, nat) chat_state)) (js ''hi'') (js ''t1'')
        (initial :: (nat, nat) chat_state))
     = Some \<lparr>req_message = trim (js ''hi''), req_session_id = None\<rparr>"
    using session_id_adopted_then_stable
      [where message = "js ''hi''" and st = "initial :: (nat, nat) chat_state"
         and now = "js ''t1''", THEN conjunct2, THEN conjunct2, THEN conjunct1] n l i
    by simp
  have g: "sessionId (sendMessage_finish \<lparr>c_isLoading = False, c_sessionId = Some (js ''s1'')\<rparr>
        (Inr \<lparr>response = js ''Shoes'', r_intent = js ''general'', session_id = js ''s2'',
              r_products = None, r_orders = None\<rparr>) (js ''t4'')
        ((initial :: (nat, nat) chat_state)\<lparr>sessionId := Some (js ''s1'')\<rparr>)) = Some (js ''s1'')"
    using session_id_adopted_then_stable
      [where r = "\<lparr>response = js ''Shoes'', r_intent = js ''general'', session_id = js ''s2'',
              r_products = None, r_orders = None\<rparr>" and now = "js ''t4''"
         and st = "(initial :: (nat, nat) chat_state)\<lparr>sessionId := Some (js ''s1'')\<rparr>"
         and c = "\<lparr>c_isLoading = False, c_sessionId = Some (js ''s1'')\<rparr>",
       THEN conjunct2, THEN conjunct2, THEN conjunct2, THEN conjunct1] tr
    by (simp add: initial_def)
  from c1 p1 p2 s a c2 c3 b b' n l d tr g show ?thesis by blast
qed

text \<open>
  C8. Every invocation of \<^verbatim>\<open>sendMessage\<close> keeps the log it finds as an unchanged prefix
  of the log it leaves: messages are neither reordered, removed nor changed, and new
  ones are added at the end only. This holds for the whole invocation and for each of
  its two parts with respect to the log current at that moment.
\<close>

theorem sendMessage_log_prefix:
  fixes st :: "('p, 'o) chat_state"
  shows "prefix (messages st) (messages (fst (sendMessage api now1 now2 message st)))
    \<and> prefix (messages st) (messages (fst (sendMessage_start c message now1 st)))
    \<and> prefix (messages st) (messages (sendMessage_finish c res now2 st))
    \<and> length (messages (fst (sendMessage api now1 now2 message st))) \<le> length (messages st) + 2"
proof -
  have a: "prefix (messages st) (messages (fst (sendMessage_start c message now1 st)))"
    by (simp add: sendMessage_start_def)
  have b: "prefix (messages st) (messages (sendMessage_finish c res now2 st))"
    by (simp add: sendMessage_finish_def Let_def split: sum.splits)
  have "prefix (messages st) (messages (fst (sendMessage api now1 now2 message st)))
      \<and> length (messages (fst (sendMessage api now1 now2 message st))) \<le> length (messages st) + 2"
  proof (cases "trim message = [] \<or> isLoading st")
    case True
    then show ?thesis by (simp add: sendMessage_guarded)
  next
    case False
    then show ?thesis by (simp add: sendMessage_messages)
  qed
  with a b show ?thesis by blast
qed

text \<open>
  C9. Every message of type user that \<^verbatim>\<open>sendMessage\<close> appends has a non-empty content:
  when the input trims to the empty string, \<^verbatim>\<open>sendMessage\<close> returns without appending
  anything and without issuing an API call.
\<close>

theorem appended_user_message_nonempty:
  fixes st :: "('p, 'o) chat_state"
  shows "(trim message = [] \<longrightarrow> sendMessage api now1 now2 message st = (st, []))
    \<and> (\<forall>m \<in> set (drop (length (messages st))
                    (messages (fst (sendMessage api now1 now2 message st)))).
          mtype m = User \<longrightarrow>
            nonempty_text (content m) \<and> content m = JString (trim message))"
proof (cases "trim message = [] \<or> isLoading st")
  case True
  then show ?thesis by (auto simp: sendMessage_guarded)
next
  case False
  then show ?thesis
    by (auto simp: sendMessage_messages userMessage_def errorMessage_def assistantMessage_def
        split: sum.splits)
qed

theorem appended_user_message_nonempty_witness:
  "trim (js ''   '') = []
   \<and> sendMessage (\<lambda>_. Inl (ApiError None)) (js ''t1'') (js ''t2'') (js ''   '')
        (initial :: (nat, nat) chat_state) = (initial, [])
   \<and> userMessage (js '' hi '') (js ''t1'')
       \<in> set (drop (length (messages (initial :: (nat, nat) chat_state)))
           (messages (fst (sendMessage (\<lambda>_. Inl (ApiError None)) (js ''t1'') (js ''t2'')
              (js '' hi '') (initial :: (nat, nat) chat_state)))))
   \<and> mtype (userMessage (js '' hi '') (js ''t1'') :: (nat, nat) chat_message) = User
   \<and> nonempty_text (content (userMessage (js '' hi '') (js ''t1'') :: (nat, nat) chat_message))"
proof -
  have e: "trim (js ''   '') = []"
    by (simp add: trim_def js_def isWhiteSpace_def)
  have n: "trim (js '' hi '') \<noteq> []"
    by (simp add: trim_def js_def isWhiteSpace_def)
  have l: "\<not> isLoading (initial :: (nat, nat) chat_state)"
    by (simp add: initial_def)
  have i: "userMessage (js '' hi '') (js ''t1'')
       \<in> set (drop (length (messages (initial :: (nat, nat) chat_state)))
           (messages (fst (sendMessage (\<lambda>_. Inl (ApiError None)) (js ''t1'') (js ''t2'')
              (js '' hi '') (initial :: (nat, nat) chat_state)))))"
    by (simp add: sendMessage_messages [OF n l])
  have u: "mtype (userMessage (js '' hi '') (js ''t1'') :: (nat, nat) chat_message) = User"
    by (simp add: userMessage_def)
  have "sendMessage (\<lambda>_. Inl (ApiError None)) (js ''t1'') (js ''t2'') (js ''   '')
        (initial :: (nat, nat) chat_state) = (initial, [])"
    using appended_user_message_nonempty [of "js ''   ''" "\<lambda>_. Inl (ApiError None)"
        "js ''t1''" "js ''t2''" "initial :: (nat, nat) chat_state"] e
    by blast
  moreover have "nonempty_text (content (userMessage (js '' hi '') (js ''t1'') :: (nat, nat) chat_message))"
    using appended_user_message_nonempty [of "js '' hi ''" "\<lambda>_. Inl (ApiError None)"
        "js ''t1''" "js ''t2''" "initial :: (nat, nat) chat_state"] i u
    by blast
  ultimately show ?thesis using e i u by blast
qed

text \<open>
  C10. \<^verbatim>\<open>loadChatHistory\<close> restores the type, content, timestamp and intent of each
  stored message and nothing else: whatever products or orders the stored history holds,
  no restored message has any. With a null session id it returns without changing the
  state.
\<close>

theorem loadChatHistory_restores_four_fields:
  fixes st :: "('p, 'o) chat_state"
  shows "(sessionId st = None \<longrightarrow> loadChatHistory getChatHistory st = st)
    \<and> (\<forall>sid history. sessionId st = Some sid \<and> sid \<noteq> [] \<and> getChatHistory sid = Inr history \<longrightarrow>
          messages (loadChatHistory getChatHistory st) = map formatMessage history
          \<and> map mtype (messages (loadChatHistory getChatHistory st)) = map mtype history
          \<and> map content (messages (loadChatHistory getChatHistory st)) = map content history
          \<and> map timestamp (messages (loadChatHistory getChatHistory st)) = map timestamp history
          \<and> map intent (messages (loadChatHistory getChatHistory st)) = map intent history
          \<and> (\<forall>m \<in> set (messages (loadChatHistory getChatHistory st)).
                products m = None \<and> orders m = None))"
  by (auto simp: loadChatHistory_def useChat_def truthy_def formatMessage_def comp_def)

theorem loadChatHistory_restores_four_fields_witness:
  "sessionId (initial :: (nat, nat) chat_state) = None
   \<and> loadChatHistory
        (\<lambda>_. Inr [\<lparr>mtype = Assistant, content = JString (js ''Dresses''), timestamp = js ''t0'',
                    intent = Some (js ''product_search''), products = Some [1 :: nat],
                    orders = Some [2 :: nat]\<rparr>])
        (initial :: (nat, nat) chat_state) = initial
   \<and> js ''s1'' \<noteq> []
   \<and> messages (loadChatHistory
        (\<lambda>_. Inr [\<lparr>mtype = Assistant, content = JString (js ''Dresses''), timestamp = js ''t0'',
                    intent = Some (js ''product_search''), products = Some [1 :: nat],
                    orders = Some [2 :: nat]\<rparr>])
        (initial\<lparr>sessionId := Some (js ''s1'')\<rparr>))
      = [\<lparr>mtype = Assistant, content = JString (js ''Dresses''), timestamp = js ''t0'',
          intent = Some (js ''product_search''), products = None, orders = None\<rparr>]"
proof -
  have i: "sessionId (initial :: (nat, nat) chat_state) = None"
    by (simp add: initial_def)
  have s: "js ''s1'' \<noteq> []"
    by (simp add: js_def)
  have a: "loadChatHistory
        (\<lambda>_. Inr [\<lparr>mtype = Assistant, content = JString (js ''Dresses''), timestamp = js ''t0'',
                    intent = Some (js ''product_search''), products = Some [1 :: nat],
                    orders = Some [2 :: nat]\<rparr>])
        (initial :: (nat, nat) chat_state) = initial"
    using loadChatHistory_restores_four_fields [of "initial :: (nat, nat) chat_state"] i
    by blast
  have b: "messages (loadChatHistory
        (\<lambda>_. Inr [\<lparr>mtype = Assistant, content = JString (js ''Dresses''), timestamp = js ''t0'',
                    intent = Some (js ''product_search''), products = Some [1 :: nat],
                    orders = Some [2 :: nat]\<rparr>])
        (initial\<lparr>sessionId := Some (js ''s1'')\<rparr>))
      = [\<lparr>mtype = Assistant, content = JString (js ''Dresses''), timestamp = js ''t0'',
          intent = Some (js ''product_search''), products = None, orders = None\<rparr>]"
    using loadChatHistory_restores_four_fields
      [of "initial\<lparr>sessionId := Some (js ''s1'')\<rparr>"
          "\<lambda>_. Inr [\<lparr>mtype = Assistant, content = JString (js ''Dresses''), timestamp = js ''t0'',
                    intent = Some (js ''product_search''), products = Some [1 :: nat],
                    orders = Some [2 :: nat]\<rparr>]"] s
    by (simp add: initial_def formatMessage_def)
  from i s a b show ?thesis by blast
qed

end
